theory Spec2Isabelle
  imports Main "HOL-Library.Log_Nat"
begin

section \<open>Python primitives used by export\_mint\_csv.py\<close>

text \<open>
  Exceptions are values. Every function of the program that can raise returns
  \<open>py_error + 'a\<close>, with \<open>Inl\<close> for the exception that leaves the function.
  \<open>CollaboratorError\<close> stands for whatever the external Robinhood client raises.
\<close>

datatype py_error =
    IndexError
  | ValueError
  | KeyError
  | OverflowError
  | AssertionError
  | CollaboratorError string

text \<open>
  \<open>s.split(sep)\<close> for a one-character separator: the result always has at least one
  segment, and \<open>n\<close> occurrences of the separator give \<open>n + 1\<close> segments.
\<close>

fun str_split :: "char \<Rightarrow> string \<Rightarrow> string list" where
  "str_split sep [] = [[]]"
| "str_split sep (c # cs) =
     (let r = str_split sep cs
      in if c = sep then [] # r else (c # hd r) # tl r)"

text \<open>\<open>sep.join(xs)\<close>.\<close>

fun str_join :: "string \<Rightarrow> string list \<Rightarrow> string" where
  "str_join sep [] = []"
| "str_join sep [x] = x"
| "str_join sep (x # y # ys) = x @ sep @ str_join sep (y # ys)"

text \<open>\<open>xs[i]\<close> for a non-negative literal index: out of range raises IndexError.\<close>

definition list_index :: "'a list \<Rightarrow> nat \<Rightarrow> py_error + 'a" where
  "list_index xs i = (if i < length xs then Inr (xs ! i) else Inl IndexError)"

section \<open>convert\_robinhood\_date\<close>

text \<open>
  \<^verbatim>\<open>
  def convert_robinhood_date(robinhood_date):
      new_date = robinhood_date.split("-")
      return '/'.join([new_date[1], new_date[2], new_date[0]])
  \<close>
  The list display evaluates \<open>new_date[1]\<close>, then \<open>new_date[2]\<close>, then \<open>new_date[0]\<close>.
\<close>

definition convert_robinhood_date :: "string \<Rightarrow> py_error + string" where
  "convert_robinhood_date robinhood_date =
     (let new_date = str_split CHR ''-'' robinhood_date
      in case list_index new_date 1 of Inl e \<Rightarrow> Inl e | Inr a \<Rightarrow>
         (case list_index new_date 2 of Inl e \<Rightarrow> Inl e | Inr b \<Rightarrow>
         (case list_index new_date 0 of Inl e \<Rightarrow> Inl e | Inr c \<Rightarrow>
            Inr (str_join ''/'' [a, b, c]))))"

section \<open>int() on strings\<close>

text \<open>
  \<open>int(s)\<close> for a \<open>str\<close>: surrounding whitespace is stripped, one sign is allowed,
  then decimal digits follow, where a single underscore may stand between two digits.
  Anything else raises ValueError. Characters are bytes here, so only the ASCII
  whitespace and the ASCII digits are recognised; the limit that recent interpreters
  put on the number of digits is left out.
\<close>

definition is_digit :: "char \<Rightarrow> bool" where
  "is_digit c = (48 \<le> (of_char c :: nat) \<and> (of_char c :: nat) \<le> 57)"

definition digit_val :: "char \<Rightarrow> int" where
  "digit_val c = int (of_char c) - 48"

definition is_space :: "char \<Rightarrow> bool" where
  "is_space c =
     ((9 \<le> (of_char c :: nat) \<and> (of_char c :: nat) \<le> 13) \<or> (of_char c :: nat) = 32)"

definition str_strip :: "string \<Rightarrow> string" where
  "str_strip s = rev (dropWhile is_space (rev (dropWhile is_space s)))"

fun int_digits :: "int \<Rightarrow> string \<Rightarrow> py_error + int" where
  "int_digits acc [] = Inr acc"
| "int_digits acc (c # cs) =
     (if is_digit c then int_digits (acc * 10 + digit_val c) cs
      else if c = CHR ''_'' \<and> cs \<noteq> [] \<and> is_digit (hd cs) then int_digits acc cs
      else Inl ValueError)"

definition py_int :: "string \<Rightarrow> py_error + int" where
  "py_int s =
     (let t = str_strip s;
          neg = (t \<noteq> [] \<and> hd t = CHR ''-'');
          u = (if t \<noteq> [] \<and> (hd t = CHR ''-'' \<or> hd t = CHR ''+'') then tl t else t)
      in if u = [] \<or> \<not> is_digit (hd u) then Inl ValueError
         else (case int_digits 0 u of
                 Inl e \<Rightarrow> Inl e
               | Inr v \<Rightarrow> Inr (if neg then - v else v)))"

section \<open>datetime\<close>

text \<open>
  \<open>datetime(year, month, day)\<close>: the three arguments are converted to C ints
  (OverflowError outside the 32-bit range), then the year must lie in 1..9999, the month
  in 1..12 and the day in 1..days of that month (ValueError otherwise). The time of day
  is midnight in every datetime the program builds, so only the date fields are kept,
  and the comparison of two datetimes is the comparison of (year, month, day).
\<close>

record datetime =
  year :: int
  month :: int
  day :: int

definition is_leap :: "int \<Rightarrow> bool" where
  "is_leap y = (y mod 4 = 0 \<and> (y mod 100 \<noteq> 0 \<or> y mod 400 = 0))"

definition days_in_month :: "int \<Rightarrow> int \<Rightarrow> int" where
  "days_in_month y m =
     (if m = 2 then (if is_leap y then 29 else 28)
      else if m = 4 \<or> m = 6 \<or> m = 9 \<or> m = 11 then 30
      else 31)"

definition valid_date :: "datetime \<Rightarrow> bool" where
  "valid_date dt =
     (1 \<le> year dt \<and> year dt \<le> 9999 \<and> 1 \<le> month dt \<and> month dt \<le> 12 \<and>
      1 \<le> day dt \<and> day dt \<le> days_in_month (year dt) (month dt))"

definition c_int :: "int \<Rightarrow> bool" where
  "c_int v = (- 2147483648 \<le> v \<and> v \<le> 2147483647)"

definition datetime_new :: "int \<Rightarrow> int \<Rightarrow> int \<Rightarrow> py_error + datetime" where
  "datetime_new y m d =
     (if \<not> (c_int y \<and> c_int m \<and> c_int d) then Inl OverflowError
      else if valid_date \<lparr>year = y, month = m, day = d\<rparr>
           then Inr \<lparr>year = y, month = m, day = d\<rparr>
           else Inl ValueError)"

definition datetime_gt :: "datetime \<Rightarrow> datetime \<Rightarrow> bool" where
  "datetime_gt a b =
     (year a > year b \<or>
      (year a = year b \<and> (month a > month b \<or> (month a = month b \<and> day a > day b))))"

section \<open>filter\_by\_date\<close>

text \<open>
  \<^verbatim>\<open>
      m, d, y = date.split("/")
      filter_day = datetime(int(y), int(m), int(d))
  \<close>
  The same two lines read the cutoff and every row's date. Unpacking anything but three
  segments raises ValueError; the arguments are evaluated in the order y, m, d.
\<close>

definition parse_mdy :: "string \<Rightarrow> py_error + datetime" where
  "parse_mdy s =
     (case str_split CHR ''/'' s of
        [m, d, y] \<Rightarrow>
          (case py_int y of Inl e \<Rightarrow> Inl e | Inr yi \<Rightarrow>
          (case py_int m of Inl e \<Rightarrow> Inl e | Inr mi \<Rightarrow>
          (case py_int d of Inl e \<Rightarrow> Inl e | Inr di \<Rightarrow>
             datetime_new yi mi di)))
      | _ \<Rightarrow> Inl ValueError)"

text \<open>
  \<^verbatim>\<open>
  def filter_by_date(date, data, key="Date"):
      filtered_data = []
      m, d, y = date.split("/")
      filter_day = datetime(int(y), int(m), int(d))
      for transaction in data:
          m, d, y = transaction[key].split("/")
          transaction_day = datetime(int(y), int(m), int(d))
          if transaction_day > filter_day:
              filtered_data.append(transaction)
      return filtered_data
  \<close>
  The rows are dictionaries; \<open>key\<close> is modelled as the lookup \<open>transaction[key]\<close>
  itself, \<open>None\<close> where the dictionary has no such key (KeyError).
\<close>

fun filter_loop ::
  "datetime \<Rightarrow> ('r \<Rightarrow> string option) \<Rightarrow> 'r list \<Rightarrow> 'r list \<Rightarrow> py_error + 'r list" where
  "filter_loop filter_day key [] filtered_data = Inr filtered_data"
| "filter_loop filter_day key (transaction # data) filtered_data =
     (case key transaction of
        None \<Rightarrow> Inl KeyError
      | Some s \<Rightarrow>
          (case parse_mdy s of
             Inl e \<Rightarrow> Inl e
           | Inr transaction_day \<Rightarrow>
               filter_loop filter_day key data
                 (if datetime_gt transaction_day filter_day
                  then filtered_data @ [transaction] else filtered_data)))"

definition filter_by_date ::
  "string \<Rightarrow> 'r list \<Rightarrow> ('r \<Rightarrow> string option) \<Rightarrow> py_error + 'r list" where
  "filter_by_date date data key =
     (case parse_mdy date of
        Inl e \<Rightarrow> Inl e
      | Inr filter_day \<Rightarrow> filter_loop filter_day key data [])"

section \<open>Floating point, as a parameter\<close>

text \<open>
  The program computes with Python floats through three library operations: \<open>float(s)\<close>
  on a string (ValueError when the string is no number), the product of two floats, and
  \<open>numpy.round(x, 2)\<close>; the CSV writer prints a float. They are parameters of the
  model: \<open>float_ok\<close> says which strings \<open>float\<close> accepts and \<open>float_val\<close> what it
  returns on them. \<open>float(x)\<close> on a value that is already a float returns it unchanged.
\<close>

record 'f float_ops =
  float_ok :: "string \<Rightarrow> bool"
  float_val :: "string \<Rightarrow> 'f"
  float_mul :: "'f \<Rightarrow> 'f \<Rightarrow> 'f"
  np_round2 :: "'f \<Rightarrow> 'f"
  float_str :: "'f \<Rightarrow> string"

definition py_float :: "'f float_ops \<Rightarrow> string \<Rightarrow> py_error + 'f" where
  "py_float F s = (if float_ok F s then Inr (float_val F s) else Inl ValueError)"

section \<open>The Robinhood client and its records\<close>

text \<open>
  The client is an external collaborator. In one run it answers \<open>login\<close>,
  \<open>order_history()["results"]\<close>, \<open>dividends()["results"]\<close> and
  \<open>get_custom_endpoint(url)['symbol']\<close>; each call may raise. The JSON objects the
  program reads are records of the fields it reads; \<open>paid_at\<close> is null or a string.
\<close>

record execution =
  exec_quantity :: string
  exec_price :: string
  exec_timestamp :: string

record order =
  order_instrument :: string
  order_side :: string
  order_executions :: "execution list"

record dividend =
  dividend_paid_at :: "string option"
  dividend_amount :: string
  dividend_payable_date :: string
  dividend_instrument :: string

record robinhood =
  login :: "string \<Rightarrow> string \<Rightarrow> py_error + bool"
  order_history :: "py_error + order list"
  dividends :: "py_error + dividend list"
  get_custom_endpoint :: "string \<Rightarrow> py_error + string"

text \<open>What a run does that can be observed from outside, in order.\<close>

datatype event =
    Call_login string string
  | Call_order_history
  | Call_dividends
  | Call_get_custom_endpoint string
  | Print_stdout string
  | Print_stderr string
  | Print_help_stderr
  | Print_elapsed_stderr
  | Print_traceback_stderr py_error

text \<open>The dictionaries built by the two fetchers.\<close>

record 'f trade =
  trade_ticker :: string
  trade_side :: string
  trade_quantity :: string
  trade_price :: string
  trade_Date :: string
  trade_cost :: 'f

record dividend_payment =
  payment_amount :: string
  payment_Date :: string
  payment_ticker :: string

text \<open>Truth value of an optional string: \<open>None\<close> and \<open>""\<close> are false.\<close>

definition truthy :: "string option \<Rightarrow> bool" where
  "truthy v = (case v of None \<Rightarrow> False | Some s \<Rightarrow> s \<noteq> [])"

section \<open>get\_robinhood\_trade\_data\<close>

text \<open>
  \<^verbatim>\<open>
  def get_robinhood_trade_data(robinhood_api):
      orders = robinhood_api.order_history()["results"]
      trade_data = []
      for order in orders:
          ticker = robinhood_api.get_custom_endpoint(order['instrument'])['symbol']
          print(ticker)
          if len(order["executions"]) > 0:
              side = order['side']
              quantity = order["executions"][0]['quantity']
              price = order['executions'][0]['price']
              timestamp = order['executions'][0]['timestamp'].split("T")[0]
              data = dict(ticker=ticker, side=side, quantity=quantity,
                          price=price, Date=timestamp, cost=float(price)*float(quantity))
              trade_data.append(data)
      return trade_data
  \<close>
\<close>

fun trade_loop ::
  "'f float_ops \<Rightarrow> robinhood \<Rightarrow> order list \<Rightarrow> event list \<Rightarrow> 'f trade list \<Rightarrow>
   event list \<times> (py_error + 'f trade list)" where
  "trade_loop F api [] evs trade_data = (evs, Inr trade_data)"
| "trade_loop F api (order # orders) evs trade_data =
     (case get_custom_endpoint api (order_instrument order) of
        Inl e \<Rightarrow> (evs @ [Call_get_custom_endpoint (order_instrument order)], Inl e)
      | Inr ticker \<Rightarrow>
          (let evs' = evs @ [Call_get_custom_endpoint (order_instrument order),
                             Print_stdout ticker]
           in if length (order_executions order) > 0 then
                (let side = order_side order;
                     quantity = exec_quantity (hd (order_executions order));
                     price = exec_price (hd (order_executions order));
                     timestamp =
                       hd (str_split CHR ''T'' (exec_timestamp (hd (order_executions order))))
                 in case py_float F price of
                      Inl e \<Rightarrow> (evs', Inl e)
                    | Inr p \<Rightarrow>
                        (case py_float F quantity of
                           Inl e \<Rightarrow> (evs', Inl e)
                         | Inr q \<Rightarrow>
                             trade_loop F api orders evs'
                               (trade_data @
                                [\<lparr>trade_ticker = ticker, trade_side = side,
                                  trade_quantity = quantity, trade_price = price,
                                  trade_Date = timestamp, trade_cost = float_mul F p q\<rparr>])))
              else trade_loop F api orders evs' trade_data))"

definition get_robinhood_trade_data ::
  "'f float_ops \<Rightarrow> robinhood \<Rightarrow> event list \<times> (py_error + 'f trade list)" where
  "get_robinhood_trade_data F robinhood_api =
     (case order_history robinhood_api of
        Inl e \<Rightarrow> ([Call_order_history], Inl e)
      | Inr orders \<Rightarrow> trade_loop F robinhood_api orders [Call_order_history] [])"

section \<open>get\_robinhood\_dividend\_data\<close>

text \<open>
  \<^verbatim>\<open>
  def get_robinhood_dividend_data(robinhood_api):
      dividend_data = []
      dividends = robinhood_api.dividends()["results"]
      for dividend in dividends:
          paid_at = dividend["paid_at"]
          if paid_at:
              amount = dividend["amount"]
              payable_date = dividend["payable_date"]
              ticker = robinhood_api.get_custom_endpoint(dividend['instrument'])['symbol']
              data = dict(amount=amount, Date=payable_date, ticker=ticker)
              dividend_data.append(data)
      return dividend_data
  \<close>
\<close>

fun dividend_loop ::
  "robinhood \<Rightarrow> dividend list \<Rightarrow> event list \<Rightarrow> dividend_payment list \<Rightarrow>
   event list \<times> (py_error + dividend_payment list)" where
  "dividend_loop api [] evs dividend_data = (evs, Inr dividend_data)"
| "dividend_loop api (dividend # rest) evs dividend_data =
     (if truthy (dividend_paid_at dividend) then
        (case get_custom_endpoint api (dividend_instrument dividend) of
           Inl e \<Rightarrow> (evs @ [Call_get_custom_endpoint (dividend_instrument dividend)], Inl e)
         | Inr ticker \<Rightarrow>
             dividend_loop api rest
               (evs @ [Call_get_custom_endpoint (dividend_instrument dividend)])
               (dividend_data @
                [\<lparr>payment_amount = dividend_amount dividend,
                  payment_Date = dividend_payable_date dividend,
                  payment_ticker = ticker\<rparr>]))
      else dividend_loop api rest evs dividend_data)"

definition get_robinhood_dividend_data ::
  "robinhood \<Rightarrow> event list \<times> (py_error + dividend_payment list)" where
  "get_robinhood_dividend_data robinhood_api =
     (case dividends robinhood_api of
        Inl e \<Rightarrow> ([Call_dividends], Inl e)
      | Inr ds \<Rightarrow> dividend_loop robinhood_api ds [Call_dividends] [])"

section \<open>parse\_robinhood\_data\_to\_mint\<close>

text \<open>
  A row of the Mint file: the dictionary with the nine keys of \<open>MINT_HEADERS\<close>.
  \<open>None\<close> values are \<open>None\<close> in the optional fields; \<open>Account Name\<close> is always
  \<open>None\<close>.
\<close>

record 'f mint_row =
  Date :: string
  Description_Original :: string
  Description :: string
  Amount :: 'f
  Transaction_Type :: string
  Category :: "string option"
  Account_Name :: "string option"
  Labels :: "string option"
  Notes :: "string option"

text \<open>
  \<^verbatim>\<open>
  def parse_robinhood_data_to_mint(trade_data, dividend_data):
      mint_data = []
      if trade_data:
          for line in trade_data:
              mint_data.append({"Date": convert_robinhood_date(line["Date"]),
                                "Description Original": line["ticker"],
                                "Description": "Investments:{}".format(line["side"]),
                                "Amount": np.round(float(line["cost"]), 2),
                                "Transaction Type": "credit",
                                "Category": line["side"],
                                "Account Name": None,
                                "Labels": line["quantity"],
                                "Notes": line["price"]})
      if dividend_data:
          for line in dividend_data:
              mint_data.append({"Date": convert_robinhood_date(line["Date"]),
                                "Description Original": line["ticker"],
                                "Description": "Investments:Dividend Income",
                                "Amount": np.round(float(line["amount"]), 2),
                                "Transaction Type": "credit",
                                "Category": None,
                                "Account Name": None,
                                "Labels": None,
                                "Notes": None})
      return mint_data
  \<close>
  An argument is \<open>None\<close> (the value \<open>main\<close> starts from) or a list; \<open>None\<close> and the
  empty list are both false in the two \<open>if\<close>s.
\<close>

fun trade_rows ::
  "'f float_ops \<Rightarrow> 'f trade list \<Rightarrow> 'f mint_row list \<Rightarrow> py_error + 'f mint_row list" where
  "trade_rows F [] mint_data = Inr mint_data"
| "trade_rows F (line # rest) mint_data =
     (case convert_robinhood_date (trade_Date line) of
        Inl e \<Rightarrow> Inl e
      | Inr d \<Rightarrow>
          trade_rows F rest
            (mint_data @
             [\<lparr>Date = d,
               Description_Original = trade_ticker line,
               Description = ''Investments:'' @ trade_side line,
               Amount = np_round2 F (trade_cost line),
               Transaction_Type = ''credit'',
               Category = Some (trade_side line),
               Account_Name = None,
               Labels = Some (trade_quantity line),
               Notes = Some (trade_price line)\<rparr>]))"

fun dividend_rows ::
  "'f float_ops \<Rightarrow> dividend_payment list \<Rightarrow> 'f mint_row list \<Rightarrow>
   py_error + 'f mint_row list" where
  "dividend_rows F [] mint_data = Inr mint_data"
| "dividend_rows F (line # rest) mint_data =
     (case convert_robinhood_date (payment_Date line) of
        Inl e \<Rightarrow> Inl e
      | Inr d \<Rightarrow>
          (case py_float F (payment_amount line) of
             Inl e \<Rightarrow> Inl e
           | Inr a \<Rightarrow>
               dividend_rows F rest
                 (mint_data @
                  [\<lparr>Date = d,
                    Description_Original = payment_ticker line,
                    Description = ''Investments:Dividend Income'',
                    Amount = np_round2 F a,
                    Transaction_Type = ''credit'',
                    Category = None,
                    Account_Name = None,
                    Labels = None,
                    Notes = None\<rparr>])))"

definition parse_robinhood_data_to_mint ::
  "'f float_ops \<Rightarrow> 'f trade list option \<Rightarrow> dividend_payment list option \<Rightarrow>
   py_error + 'f mint_row list" where
  "parse_robinhood_data_to_mint F trade_data dividend_data =
     (case (case trade_data of
              Some (line # rest) \<Rightarrow> trade_rows F (line # rest) []
            | _ \<Rightarrow> Inr []) of
        Inl e \<Rightarrow> Inl e
      | Inr mint_data \<Rightarrow>
          (case dividend_data of
             Some (line # rest) \<Rightarrow> dividend_rows F (line # rest) mint_data
           | _ \<Rightarrow> Inr mint_data))"

section \<open>write\_csv\<close>

definition MINT_HEADERS :: "string list" where
  "MINT_HEADERS =
     [''Date'', ''Description Original'', ''Description'', ''Amount'', ''Transaction Type'',
      ''Category'', ''Account Name'', ''Labels'', ''Notes'']"

text \<open>
  \<open>os.path.splitext\<close> of the POSIX path module: the extension starts at the last dot
  of the last path component, unless that component has only dots before it.
\<close>

definition rfind :: "char \<Rightarrow> string \<Rightarrow> int" where
  "rfind c p =
     (case filter (\<lambda>i. p ! i = c) (rev [0..<length p]) of [] \<Rightarrow> - 1 | i # _ \<Rightarrow> int i)"

definition splitext :: "string \<Rightarrow> string \<times> string" where
  "splitext p =
     (let sepIndex = rfind CHR ''/'' p;
          dotIndex = rfind CHR ''.'' p
      in if dotIndex > sepIndex \<and>
            list_ex (\<lambda>i. p ! i \<noteq> CHR ''.'') [nat (sepIndex + 1)..<nat dotIndex]
         then (take (nat dotIndex) p, drop (nat dotIndex) p)
         else (p, []))"

text \<open>
  The cell \<open>csv.DictWriter\<close> writes for a key of the row: \<open>None\<close> is written as the
  empty string, a float as its text. \<open>row_get\<close> is \<open>None\<close> for a key the row does not
  have. A file is the list of the records written to it, each a list of cells.
\<close>

definition cell_of :: "string option \<Rightarrow> string" where
  "cell_of v = (case v of None \<Rightarrow> [] | Some s \<Rightarrow> s)"

definition row_get :: "'f float_ops \<Rightarrow> 'f mint_row \<Rightarrow> string \<Rightarrow> string option" where
  "row_get F row k =
     (if k = ''Date'' then Some (Date row)
      else if k = ''Description Original'' then Some (Description_Original row)
      else if k = ''Description'' then Some (Description row)
      else if k = ''Amount'' then Some (float_str F (Amount row))
      else if k = ''Transaction Type'' then Some (Transaction_Type row)
      else if k = ''Category'' then Some (cell_of (Category row))
      else if k = ''Account Name'' then Some (cell_of (Account_Name row))
      else if k = ''Labels'' then Some (cell_of (Labels row))
      else if k = ''Notes'' then Some (cell_of (Notes row))
      else None)"

type_synonym files = "string \<rightharpoonup> string list list"

text \<open>
  \<open>writer.writerow(row)\<close> raises ValueError when the row has a key that is not a
  field name, and writes the default \<open>''\<close> for a field name the row does not have.
  What was written before the error stays in the file.
\<close>

fun writerows ::
  "'f float_ops \<Rightarrow> string list \<Rightarrow> 'f mint_row list \<Rightarrow> string list list \<Rightarrow>
   py_error option \<times> string list list" where
  "writerows F header [] written = (None, written)"
| "writerows F header (row # data) written =
     (if \<not> set MINT_HEADERS \<subseteq> set header then (Some ValueError, written)
      else writerows F header data
             (written @ [map (\<lambda>k. case row_get F row k of None \<Rightarrow> [] | Some c \<Rightarrow> c) header]))"

text \<open>
  \<^verbatim>\<open>
  def write_csv(header, data, output_path):
      assert os.path.splitext(output_path)[1] == ".csv", "Outpath must end with the .csv extension"
      with open('{}'.format(output_path), 'w', newline='') as csvfile:
          writer = csv.DictWriter(csvfile, fieldnames=header)
          writer.writeheader()
          for row in data:
              writer.writerow(row)
      return output_path
  \<close>
  The \<open>assert\<close> is checked (the interpreter does not run with \<open>-O\<close>), and
  opening the file is taken to succeed. When \<open>writerow\<close> raises inside the
  \<open>with\<close> block, the file is closed with what was written so far.
\<close>

definition write_csv ::
  "'f float_ops \<Rightarrow> string list \<Rightarrow> 'f mint_row list \<Rightarrow> string \<Rightarrow> files \<Rightarrow>
   (py_error + string) \<times> files" where
  "write_csv F header data output_path fs =
     (if snd (splitext output_path) \<noteq> ''.csv'' then (Inl AssertionError, fs)
      else (case writerows F header data [header] of
              (Some e, written) \<Rightarrow> (Inl e, fs(output_path \<mapsto> written))
            | (None, written) \<Rightarrow> (Inr output_path, fs(output_path \<mapsto> written))))"

section \<open>The command line and main\<close>

text \<open>
  The parsed command line (a command line that \<open>argparse\<close> rejects ends the process
  before \<open>main\<close> does anything else). \<open>--trades\<close> and \<open>--dividends\<close> default to
  \<open>True\<close> and \<open>--date\<close> and \<open>--output\<close> to \<open>False\<close>; an option that is given is
  the string that was given, which is true unless it is empty. \<open>None\<close> is the default
  here.
\<close>

record args =
  arg_username :: string
  arg_password :: string
  arg_trades :: "string option"
  arg_dividends :: "string option"
  arg_date :: "string option"
  arg_output :: "string option"

definition default_true :: "string option \<Rightarrow> bool" where
  "default_true v = (case v of None \<Rightarrow> True | Some s \<Rightarrow> s \<noteq> [])"

text \<open>
  \<^verbatim>\<open>
      def do_usage_and_die(self, message):
          print(message, file=sys.stderr)
          self.parser.print_help(file=sys.stderr)
          return 2
  \<close>
  The method returns 2 to its caller; it does not end the process.
\<close>

definition do_usage_and_die :: "string \<Rightarrow> event list \<times> int" where
  "do_usage_and_die message = ([Print_stderr message, Print_help_stderr], 2)"

text \<open>
  A run of the script: the trace of what it did, the files afterwards and the exit
  status of the process. An exception that leaves \<open>main\<close> prints a traceback and gives
  status 1; after \<open>main\<close> returns, \<open>raise SystemExit\<close> gives status 0.
\<close>

record run =
  trace :: "event list"
  files_after :: files
  exit_status :: int

definition uncaught :: "event list \<Rightarrow> files \<Rightarrow> py_error \<Rightarrow> run" where
  "uncaught evs fs e =
     \<lparr>trace = evs @ [Print_traceback_stderr e], files_after = fs, exit_status = 1\<rparr>"

definition main :: "'f float_ops \<Rightarrow> args \<Rightarrow> robinhood \<Rightarrow> files \<Rightarrow> run" where
  "main F command_line robinhood_api_handle fs =
     (let ev0 = [Call_login (arg_username command_line) (arg_password command_line)]
      in case login robinhood_api_handle (arg_username command_line)
                (arg_password command_line) of
        Inl e \<Rightarrow> uncaught ev0 fs e
      | Inr logged_in \<Rightarrow>
     (let ev1 = ev0 @ (if \<not> logged_in
                       then fst (do_usage_and_die ''Username or Password is incorrect'')
                       else [])
      in case (if default_true (arg_dividends command_line)
               then map_prod id (map_sum id Some)
                      (get_robinhood_dividend_data robinhood_api_handle)
               else ([], Inr None)) of
        (ev2, Inl e) \<Rightarrow> uncaught (ev1 @ ev2) fs e
      | (ev2, Inr dividend_data) \<Rightarrow>
     (case (if default_true (arg_trades command_line)
            then map_prod id (map_sum id Some)
                   (get_robinhood_trade_data F robinhood_api_handle)
            else ([], Inr None)) of
        (ev3, Inl e) \<Rightarrow> uncaught (ev1 @ ev2 @ ev3) fs e
      | (ev3, Inr trade_data) \<Rightarrow>
     (case parse_robinhood_data_to_mint F trade_data dividend_data of
        Inl e \<Rightarrow> uncaught (ev1 @ ev2 @ ev3) fs e
      | Inr mint_data \<Rightarrow>
     (case (case arg_date command_line of
              Some (c # cs) \<Rightarrow> filter_by_date (c # cs) mint_data (\<lambda>r. Some (Date r))
            | _ \<Rightarrow> Inr mint_data) of
        Inl e \<Rightarrow> uncaught (ev1 @ ev2 @ ev3) fs e
      | Inr mint_data' \<Rightarrow>
     (case write_csv F MINT_HEADERS mint_data'
             (case arg_output command_line of
                Some (c # cs) \<Rightarrow> c # cs
              | _ \<Rightarrow> ''robinhood_output.csv'') fs of
        (Inl e, fs') \<Rightarrow> uncaught (ev1 @ ev2 @ ev3) fs' e
      | (Inr _, fs') \<Rightarrow>
          \<lparr>trace = ev1 @ ev2 @ ev3 @ [Print_elapsed_stderr], files_after = fs',
            exit_status = 0\<rparr>))))))"

section \<open>Binary64 floating point\<close>

text \<open>
  The floats of the interpreter, as an instance of the parameter. A double is a signed
  mantissa and an exponent, standing for mantissa times two to the exponent, or an
  infinity, or NaN. Finite doubles are kept in one form: zero is \<open>Finite 0 0\<close>, a
  normal number has a mantissa of 53 bits and an exponent from -1074 to 971, and a
  subnormal number has the exponent -1074. Negative zero is not told from zero.

  \<open>round_to_double p q E\<close> is the double nearest to \<open>p / q\<close> times two to the \<open>E\<close>,
  ties to the even mantissa, for \<open>p \<ge> 0\<close> and \<open>q > 0\<close>; what lies beyond the largest
  double becomes infinity.
\<close>

datatype double = Finite int int | PInf | NInf | NaN

definition div_half_even :: "int \<Rightarrow> int \<Rightarrow> int" where
  "div_half_even p q =
     (if 2 * (p mod q) < q then p div q
      else if q < 2 * (p mod q) then p div q + 1
      else if even (p div q) then p div q
      else p div q + 1)"

definition round_to_double :: "int \<Rightarrow> int \<Rightarrow> int \<Rightarrow> double" where
  "round_to_double p q E =
     (let s0 = bitlen p - bitlen q - 53;
          s1 = (if p * 2 ^ nat (- s0) < 2 ^ 53 * q * 2 ^ nat s0 then s0 else s0 + 1);
          e = max (s1 + E) (- 1074);
          m = div_half_even (p * 2 ^ nat (E - e)) (q * 2 ^ nat (e - E))
      in if m = 0 then Finite 0 0
         else if m = 2 ^ 53 then (if 971 < e + 1 then PInf else Finite (2 ^ 52) (e + 1))
         else if 971 < e then PInf
         else Finite m e)"

fun negate :: "double \<Rightarrow> double" where
  "negate (Finite m e) = Finite (- m) e"
| "negate PInf = NInf"
| "negate NInf = PInf"
| "negate NaN = NaN"





text \<open>
  \<open>float(s)\<close> on a string: surrounding whitespace is stripped and one sign is allowed;
  then \<open>inf\<close>, \<open>infinity\<close> or \<open>nan\<close> in any case, or a decimal numeral: digits with
  at most one point and at least one digit, and an optional exponent \<open>e\<close> or \<open>E\<close>
  with its own sign. A single underscore may stand between two digits. The numeral is
  rounded to the nearest double. Anything else raises ValueError (\<open>None\<close> here).
\<close>

definition digits_val :: "string \<Rightarrow> int" where
  "digits_val ds = foldl (\<lambda>a c. a * 10 + digit_val c) 0 ds"

fun underscores_ok :: "bool \<Rightarrow> string \<Rightarrow> bool" where
  "underscores_ok after_digit [] = True"
| "underscores_ok after_digit (c # cs) =
     (if c = CHR ''_''
      then after_digit \<and> cs \<noteq> [] \<and> is_digit (hd cs) \<and> underscores_ok False cs
      else underscores_ok (is_digit c) cs)"

definition lower_code :: "char \<Rightarrow> nat" where
  "lower_code c =
     (if 65 \<le> (of_char c :: nat) \<and> (of_char c :: nat) \<le> 90 then of_char c + 32
      else of_char c)"

definition same_word :: "string \<Rightarrow> string \<Rightarrow> bool" where
  "same_word s w = (map lower_code s = map of_char w)"

definition decimal_exponent :: "string \<Rightarrow> int option" where
  "decimal_exponent r =
     (if r = [] then Some 0
      else if hd r = CHR ''e'' \<or> hd r = CHR ''E'' then
        (let ds = (if tl r \<noteq> [] \<and> (hd (tl r) = CHR ''-'' \<or> hd (tl r) = CHR ''+'')
                   then tl (tl r) else tl r)
         in if ds \<noteq> [] \<and> list_all is_digit ds
            then Some (if tl r \<noteq> [] \<and> hd (tl r) = CHR ''-''
                       then - digits_val ds else digits_val ds)
            else None)
      else None)"

definition parse_decimal :: "string \<Rightarrow> double option" where
  "parse_decimal u =
     (let ip = takeWhile is_digit u;
          r1 = dropWhile is_digit u;
          fp = (if r1 \<noteq> [] \<and> hd r1 = CHR ''.'' then takeWhile is_digit (tl r1) else []);
          r2 = (if r1 \<noteq> [] \<and> hd r1 = CHR ''.'' then dropWhile is_digit (tl r1) else r1)
      in if ip @ fp = [] then None
         else (case decimal_exponent r2 of
                 None \<Rightarrow> None
               | Some x \<Rightarrow>
                   Some (if 0 \<le> x - int (length fp)
                         then round_to_double
                                (digits_val (ip @ fp) * 10 ^ nat (x - int (length fp))) 1 0
                         else round_to_double
                                (digits_val (ip @ fp)) (10 ^ nat (int (length fp) - x)) 0)))"

definition float_parse :: "string \<Rightarrow> double option" where
  "float_parse s =
     (let t = str_strip s;
          neg = (t \<noteq> [] \<and> hd t = CHR ''-'');
          u = (if t \<noteq> [] \<and> (hd t = CHR ''-'' \<or> hd t = CHR ''+'') then tl t else t)
      in if same_word u ''inf'' \<or> same_word u ''infinity''
         then Some (if neg then NInf else PInf)
         else if same_word u ''nan'' then Some NaN
         else if underscores_ok False u
              then map_option (\<lambda>d. if neg then negate d else d)
                     (parse_decimal (filter (\<lambda>c. c \<noteq> CHR ''_'') u))
              else None)"



section \<open>An instance of the float parameter for concrete runs\<close>

text \<open>
  To run the model on concrete inputs the float operations are instantiated with
  expressions that are built and never evaluated: the result of a run then shows which
  operations the program applied to which strings. The strings accepted are those that
  \<open>float\<close> accepts.
\<close>

datatype fexpr = Float_of string | Times fexpr fexpr | Round2 fexpr

fun fexpr_str :: "fexpr \<Rightarrow> string" where
  "fexpr_str (Float_of s) = s"
| "fexpr_str (Times a b) = fexpr_str a @ ''*'' @ fexpr_str b"
| "fexpr_str (Round2 a) = ''round('' @ fexpr_str a @ '', 2)''"

definition symbolic_floats :: "fexpr float_ops" where
  "symbolic_floats =
     \<lparr>float_ok = (\<lambda>s. float_parse s \<noteq> None),
      float_val = Float_of,
      float_mul = Times,
      np_round2 = Round2,
      float_str = fexpr_str\<rparr>"

section \<open>Calendar dates and their two text forms\<close>

text \<open>
  The reference against which the date code is checked. A date value is a valid
  \<open>datetime\<close>; \<open>iso_format\<close> writes it as YYYY-MM-DD (the form the Robinhood API
  sends) and \<open>mdy_format\<close> as MM/DD/YYYY (the form of the Mint file), both zero padded.
  \<open>toordinal\<close> counts the days from 0001-01-01 (day 1) by adding up the lengths of the
  years and months that have passed: it is the position of the date in the calendar.
\<close>

definition digit_char :: "nat \<Rightarrow> char" where
  "digit_char k = ''0123456789'' ! k"

definition pad2 :: "int \<Rightarrow> string" where
  "pad2 n = [digit_char (nat n div 10 mod 10), digit_char (nat n mod 10)]"

definition pad4 :: "int \<Rightarrow> string" where
  "pad4 n = [digit_char (nat n div 1000 mod 10), digit_char (nat n div 100 mod 10),
             digit_char (nat n div 10 mod 10), digit_char (nat n mod 10)]"

definition iso_format :: "datetime \<Rightarrow> string" where
  "iso_format dt = pad4 (year dt) @ ''-'' @ pad2 (month dt) @ ''-'' @ pad2 (day dt)"

definition mdy_format :: "datetime \<Rightarrow> string" where
  "mdy_format dt = pad2 (month dt) @ ''/'' @ pad2 (day dt) @ ''/'' @ pad4 (year dt)"

text \<open>
  The inverse of the conversion, from MM/DD/YYYY back to YYYY-MM-DD. The program has no
  such function; this is the same exchange of segments read backwards, against which
  the round trip of \<open>convert_robinhood_date\<close> is stated.
\<close>

definition mint_date_to_robinhood :: "string \<Rightarrow> py_error + string" where
  "mint_date_to_robinhood mint_date =
     (let new_date = str_split CHR ''/'' mint_date
      in case list_index new_date 2 of Inl e \<Rightarrow> Inl e | Inr y \<Rightarrow>
         (case list_index new_date 0 of Inl e \<Rightarrow> Inl e | Inr m \<Rightarrow>
         (case list_index new_date 1 of Inl e \<Rightarrow> Inl e | Inr d \<Rightarrow>
            Inr (str_join ''-'' [y, m, d]))))"

definition days_in_year :: "int \<Rightarrow> int" where
  "days_in_year y = (if is_leap y then 366 else 365)"

definition days_before_year :: "int \<Rightarrow> int" where
  "days_before_year y = (\<Sum>k = 1..<y. days_in_year k)"

definition days_before_month :: "int \<Rightarrow> int \<Rightarrow> int" where
  "days_before_month y m = (\<Sum>k = 1..<m. days_in_month y k)"

definition toordinal :: "datetime \<Rightarrow> int" where
  "toordinal dt =
     days_before_year (year dt) + days_before_month (year dt) (month dt) + day dt"

section \<open>A concrete account for running the model\<close>

text \<open>
  One order for AAPL with one execution and one dividend of MSFT, as the client would
  return them; \<open>example_client ok ds\<close> answers \<open>login\<close> with \<open>ok\<close> and
  \<open>dividends\<close> with \<open>ds\<close>. The command line gives only the credentials. Then the
  dictionaries the fetchers build from them, the two rows of the Mint file, and the
  records of the file that is written.
\<close>

definition example_order :: order where
  "example_order =
     \<lparr>order_instrument = ''instruments/aapl/'', order_side = ''buy'',
      order_executions =
        [\<lparr>exec_quantity = ''10'', exec_price = ''150.005'',
          exec_timestamp = ''2020-01-15T00:00:00''\<rparr>]\<rparr>"

definition example_dividend :: "string option \<Rightarrow> dividend" where
  "example_dividend paid =
     \<lparr>dividend_paid_at = paid, dividend_amount = ''5.04'',
      dividend_payable_date = ''2017-05-18'', dividend_instrument = ''instruments/msft/''\<rparr>"

definition example_client :: "bool \<Rightarrow> dividend list \<Rightarrow> robinhood" where
  "example_client ok ds =
     \<lparr>login = (\<lambda>username password. Inr ok),
      order_history = Inr [example_order],
      dividends = Inr ds,
      get_custom_endpoint =
        (\<lambda>url. if url = ''instruments/aapl/'' then Inr ''AAPL''
               else if url = ''instruments/msft/'' then Inr ''MSFT''
               else Inl (CollaboratorError ''404''))\<rparr>"

definition example_args :: args where
  "example_args =
     \<lparr>arg_username = ''user'', arg_password = ''wrong'', arg_trades = None,
      arg_dividends = None, arg_date = None, arg_output = None\<rparr>"

definition example_trade :: "fexpr trade" where
  "example_trade =
     \<lparr>trade_ticker = ''AAPL'', trade_side = ''buy'', trade_quantity = ''10'',
      trade_price = ''150.005'', trade_Date = ''2020-01-15'',
      trade_cost = Times (Float_of ''150.005'') (Float_of ''10'')\<rparr>"

definition example_payment :: dividend_payment where
  "example_payment =
     \<lparr>payment_amount = ''5.04'', payment_Date = ''2017-05-18'', payment_ticker = ''MSFT''\<rparr>"

definition example_rows :: "fexpr mint_row list" where
  "example_rows =
     [\<lparr>Date = ''01/15/2020'', Description_Original = ''AAPL'',
       Description = ''Investments:buy'',
       Amount = Round2 (Times (Float_of ''150.005'') (Float_of ''10'')),
       Transaction_Type = ''credit'', Category = Some ''buy'', Account_Name = None,
       Labels = Some ''10'', Notes = Some ''150.005''\<rparr>,
      \<lparr>Date = ''05/18/2017'', Description_Original = ''MSFT'',
       Description = ''Investments:Dividend Income'',
       Amount = Round2 (Float_of ''5.04''),
       Transaction_Type = ''credit'', Category = None, Account_Name = None,
       Labels = None, Notes = None\<rparr>]"

definition example_file :: "string list list" where
  "example_file =
     [[''Date'', ''Description Original'', ''Description'', ''Amount'', ''Transaction Type'',
       ''Category'', ''Account Name'', ''Labels'', ''Notes''],
      [''01/15/2020'', ''AAPL'', ''Investments:buy'', ''round(150.005*10, 2)'', ''credit'',
       ''buy'', [], ''10'', ''150.005''],
      [''05/18/2017'', ''MSFT'', ''Investments:Dividend Income'', ''round(5.04, 2)'',
       ''credit'', [], [], [], []]]"




section \<open>The cost of a fetched trade\<close>

text \<open>The \<open>cost\<close> entry is the product of the floats of the price and quantity entries.\<close>

definition cost_ok :: "'f float_ops \<Rightarrow> 'f trade \<Rightarrow> bool" where
  "cost_ok F t = (trade_cost t = float_mul F (float_val F (trade_price t)) (float_val F (trade_quantity t)))"

section \<open>Properties of the primitives\<close>

lemma str_split_nonempty: "str_split sep s \<noteq> []"
  by (induction s) (auto simp: Let_def)

lemma length_str_split: "length (str_split sep s) = Suc (length (filter (\<lambda>c. c = sep) s))"
proof (induction s)
  case Nil
  show ?case by simp
next
  case (Cons c cs)
  have "length (tl (str_split sep cs)) = length (str_split sep cs) - 1"
    by simp
  with Cons str_split_nonempty [of sep cs] show ?case
    by (cases "str_split sep cs") (auto simp: Let_def)
qed

section \<open>Decimal digits and int()\<close>

lemma of_char_digit_char: "k < 10 \<Longrightarrow> (of_char (digit_char k) :: nat) = 48 + k"
proof -
  assume "k < 10"
  then consider "k = 0" | "k = 1" | "k = 2" | "k = 3" | "k = 4"
    | "k = 5" | "k = 6" | "k = 7" | "k = 8" | "k = 9"
    by atomize_elim arith
  then show ?thesis
    by cases (simp_all add: digit_char_def)
qed

lemma is_digit_digit_char: "k < 10 \<Longrightarrow> is_digit (digit_char k)"
  by (simp add: is_digit_def of_char_digit_char)

lemma digit_val_digit_char: "k < 10 \<Longrightarrow> digit_val (digit_char k) = int k"
  by (simp add: digit_val_def of_char_digit_char)

lemma is_digit_not_space: "is_digit c \<Longrightarrow> \<not> is_space c"
  by (auto simp: is_digit_def is_space_def)

lemma is_digit_neq:
  "is_digit c \<Longrightarrow>
   c \<noteq> CHR ''-'' \<and> c \<noteq> CHR ''+'' \<and> c \<noteq> CHR ''_'' \<and> c \<noteq> CHR ''/''"
  by (auto simp: is_digit_def)

lemma two_digits: "m < 100 \<Longrightarrow> (m div 10 mod 10) * 10 + m mod 10 = (m::nat)"
  by (simp add: div_less_iff_less_mult)

lemma four_digits:
  assumes "m < 10000"
  shows "(m div 1000 mod 10) * 1000 + (m div 100 mod 10) * 100 + (m div 10 mod 10) * 10 +
         m mod 10 = (m::nat)"
proof -
  define a where "a = m div 10"
  define b where "b = a div 10"
  define c where "c = b div 10"
  have b: "m div 100 = b"
    unfolding b_def a_def by (simp add: div_mult2_eq [symmetric])
  have c: "m div 1000 = c"
    unfolding c_def b_def a_def by (simp add: div_mult2_eq [symmetric])
  have c10: "c < 10"
    using assms c by (simp add: div_less_iff_less_mult [symmetric])
  have 1: "m = a * 10 + m mod 10"
    unfolding a_def by simp
  have 2: "a = b * 10 + a mod 10"
    unfolding b_def by simp
  have 3: "b = c * 10 + b mod 10"
    unfolding c_def by simp
  have "m div 10 = a"
    by (simp add: a_def)
  with b c c10 1 2 3 show ?thesis
    by simp
qed

lemma str_strip_two:
  "\<not> is_space a \<Longrightarrow> \<not> is_space b \<Longrightarrow> str_strip (a # cs @ [b]) = a # cs @ [b]"
  by (simp add: str_strip_def)

lemma int_digits_two:
  "is_digit a \<Longrightarrow> is_digit b \<Longrightarrow>
   int_digits acc [a, b] = Inr ((acc * 10 + digit_val a) * 10 + digit_val b)"
  by simp

lemma int_digits_four:
  "is_digit a \<Longrightarrow> is_digit b \<Longrightarrow> is_digit c \<Longrightarrow> is_digit d \<Longrightarrow>
   int_digits acc [a, b, c, d] =
     Inr ((((acc * 10 + digit_val a) * 10 + digit_val b) * 10 + digit_val c) * 10 +
          digit_val d)"
  by simp

lemma py_int_unsigned:
  assumes "is_digit a" "str_strip (a # cs) = a # cs"
  shows "py_int (a # cs) = int_digits 0 (a # cs)"
proof -
  have "a \<noteq> CHR ''-''" "a \<noteq> CHR ''+''"
    using is_digit_neq [OF assms(1)] by simp_all
  then show ?thesis
    unfolding py_int_def assms(2) Let_def using assms(1)
    by (cases "int_digits 0 (a # cs)") simp_all
qed

lemma nat_of_bounded: "0 \<le> n \<Longrightarrow> n < int k \<Longrightarrow> \<exists>m. n = int m \<and> m < k"
  by (metis nat_0_le nat_less_iff)

lemma py_int_pad2:
  assumes "0 \<le> n" "n < 100"
  shows "py_int (pad2 n) = Inr n"
proof -
  obtain m where m: "n = int m" "m < 100"
    using nat_of_bounded [of n 100] assms by auto
  define a b where "a = digit_char (m div 10 mod 10)" and "b = digit_char (m mod 10)"
  have dg: "is_digit a" "is_digit b"
    by (simp_all add: is_digit_digit_char a_def b_def)
  have s: "str_strip (a # [] @ [b]) = a # [] @ [b]"
    by (rule str_strip_two) (simp_all add: is_digit_not_space dg)
  have "py_int (pad2 n) = int_digits 0 [a, b]"
    unfolding pad2_def m(1) using py_int_unsigned [OF dg(1)] s
    by (simp add: a_def b_def)
  also have "\<dots> = Inr (int ((m div 10 mod 10) * 10 + m mod 10))"
    unfolding int_digits_two [OF dg] by (simp add: a_def b_def digit_val_digit_char)
  also have "\<dots> = Inr (int m)"
    by (simp only: two_digits [OF m(2)])
  also have "\<dots> = Inr n"
    by (simp add: m(1))
  finally show ?thesis .
qed

lemma py_int_pad4:
  assumes "0 \<le> n" "n < 10000"
  shows "py_int (pad4 n) = Inr n"
proof -
  obtain m where m: "n = int m" "m < 10000"
    using nat_of_bounded [of n 10000] assms by auto
  define a b c d where "a = digit_char (m div 1000 mod 10)"
    and "b = digit_char (m div 100 mod 10)"
    and "c = digit_char (m div 10 mod 10)"
    and "d = digit_char (m mod 10)"
  have dg: "is_digit a" "is_digit b" "is_digit c" "is_digit d"
    by (simp_all add: is_digit_digit_char a_def b_def c_def d_def)
  have s: "str_strip (a # [b, c] @ [d]) = a # [b, c] @ [d]"
    by (rule str_strip_two) (simp_all add: is_digit_not_space dg)
  have "py_int (pad4 n) = int_digits 0 [a, b, c, d]"
    unfolding pad4_def m(1) using py_int_unsigned [OF dg(1)] s
    by (simp add: a_def b_def c_def d_def)
  also have "\<dots> = Inr (int ((m div 1000 mod 10) * 1000 + (m div 100 mod 10) * 100 +
                              (m div 10 mod 10) * 10 + m mod 10))"
    unfolding int_digits_four [OF dg]
    by (simp add: a_def b_def c_def d_def digit_val_digit_char)
  also have "\<dots> = Inr (int m)"
    by (simp only: four_digits [OF m(2)])
  also have "\<dots> = Inr n"
    by (simp add: m(1))
  finally show ?thesis .
qed

section \<open>Splitting the two text forms\<close>

lemma str_split_no_sep: "sep \<notin> set s \<Longrightarrow> str_split sep s = [s]"
  by (induction s) (auto simp: Let_def)

lemma str_split_append:
  "sep \<notin> set s \<Longrightarrow> str_split sep (s @ sep # t) = s # str_split sep t"
  by (induction s) (auto simp: Let_def)

lemma digit_char_neq:
  "k < 10 \<Longrightarrow> digit_char k \<noteq> CHR ''/'' \<and> digit_char k \<noteq> CHR ''-''"
  using is_digit_neq [OF is_digit_digit_char] by simp

lemma pad2_no_sep: "CHR ''/'' \<notin> set (pad2 n)" "CHR ''-'' \<notin> set (pad2 n)"
  using digit_char_neq [of "nat n div 10 mod 10"] digit_char_neq [of "nat n mod 10"]
  by (auto simp: pad2_def)

lemma pad4_no_sep: "CHR ''/'' \<notin> set (pad4 n)" "CHR ''-'' \<notin> set (pad4 n)"
  using digit_char_neq [of "nat n div 1000 mod 10"] digit_char_neq [of "nat n div 100 mod 10"]
    digit_char_neq [of "nat n div 10 mod 10"] digit_char_neq [of "nat n mod 10"]
  by (auto simp: pad4_def)

lemma str_split_mdy_format:
  "str_split CHR ''/'' (mdy_format dt) = [pad2 (month dt), pad2 (day dt), pad4 (year dt)]"
  unfolding mdy_format_def
  by (simp add: str_split_append pad2_no_sep str_split_no_sep pad4_no_sep)

lemma str_split_iso_format:
  "str_split CHR ''-'' (iso_format dt) = [pad4 (year dt), pad2 (month dt), pad2 (day dt)]"
  unfolding iso_format_def
  by (simp add: str_split_append pad2_no_sep str_split_no_sep pad4_no_sep)

lemma days_in_month_le: "days_in_month y m \<le> 31"
  by (simp add: days_in_month_def)

text \<open>The reader of \<open>filter_by_date\<close> recovers a valid date from its MM/DD/YYYY text.\<close>

lemma parse_mdy_format:
  assumes "valid_date dt"
  shows "parse_mdy (mdy_format dt) = Inr dt"
proof -
  have r: "0 \<le> year dt" "year dt < 10000" "0 \<le> month dt" "month dt < 100"
    "0 \<le> day dt" "day dt < 100"
    using assms days_in_month_le [of "year dt" "month dt"] by (auto simp: valid_date_def)
  have c: "c_int (year dt)" "c_int (month dt)" "c_int (day dt)"
    using r by (simp_all add: c_int_def)
  have "datetime_new (year dt) (month dt) (day dt) = Inr dt"
    using assms c by (simp add: datetime_new_def valid_date_def)
  then show ?thesis
    by (simp add: parse_mdy_def str_split_mdy_format py_int_pad2 py_int_pad4 r)
qed

lemma convert_iso_format: "convert_robinhood_date (iso_format dt) = Inr (mdy_format dt)"
  by (simp add: convert_robinhood_date_def str_split_iso_format list_index_def mdy_format_def)

lemma mint_date_to_robinhood_format:
  "mint_date_to_robinhood (mdy_format dt) = Inr (iso_format dt)"
  by (simp add: mint_date_to_robinhood_def str_split_mdy_format list_index_def
      iso_format_def)

section \<open>The calendar order\<close>

lemma days_in_year_pos: "0 < days_in_year y"
  by (simp add: days_in_year_def)

lemma days_in_month_pos: "0 < days_in_month y m"
  by (simp add: days_in_month_def)

lemma days_before_year_Suc:
  "1 \<le> y \<Longrightarrow> days_before_year (y + 1) = days_before_year y + days_in_year y"
proof -
  assume "1 \<le> y"
  then have "{1..<y + 1} = insert y {1..<y}"
    by auto
  then show ?thesis
    by (simp add: days_before_year_def)
qed

lemma days_before_year_mono: "y \<le> y' \<Longrightarrow> days_before_year y \<le> days_before_year y'"
  unfolding days_before_year_def
  by (rule sum_mono2) (auto simp: less_imp_le [OF days_in_year_pos])

lemma days_before_month_Suc:
  "1 \<le> m \<Longrightarrow> days_before_month y (m + 1) = days_before_month y m + days_in_month y m"
proof -
  assume "1 \<le> m"
  then have "{1..<m + 1} = insert m {1..<m}"
    by auto
  then show ?thesis
    by (simp add: days_before_month_def)
qed

lemma days_before_month_mono:
  "m \<le> m' \<Longrightarrow> days_before_month y m \<le> days_before_month y m'"
  unfolding days_before_month_def
  by (rule sum_mono2) (auto simp: less_imp_le [OF days_in_month_pos])

lemma days_before_month_13: "days_before_month y 13 = days_in_year y"
proof -
  have "days_before_month y 1 = 0"
    by (simp add: days_before_month_def)
  then show ?thesis
    using days_before_month_Suc [of 1 y] days_before_month_Suc [of 2 y]
      days_before_month_Suc [of 3 y] days_before_month_Suc [of 4 y]
      days_before_month_Suc [of 5 y] days_before_month_Suc [of 6 y]
      days_before_month_Suc [of 7 y] days_before_month_Suc [of 8 y]
      days_before_month_Suc [of 9 y] days_before_month_Suc [of 10 y]
      days_before_month_Suc [of 11 y] days_before_month_Suc [of 12 y]
    by (simp add: days_in_month_def days_in_year_def)
qed

text \<open>
  The days before a year in closed form, the formula of Python's \<open>date.toordinal\<close>:
  \<open>toordinal\<close> is the proleptic Gregorian day number.
\<close>

lemma div_step:
  fixes y k :: int
  assumes "0 < k"
  shows "y div k = (y - 1) div k + (if y mod k = 0 then 1 else 0)"
proof (cases "y mod k = 0")
  case True
  then obtain q where q: "y = k * q"
    by (metis mod_eq_0_iff_dvd dvd_def)
  have "(k * q - 1) div k = q - 1"
  proof -
    have "k * q - 1 = (k - 1) + (q - 1) * k"
      by (simp add: algebra_simps)
    then have "(k * q - 1) div k = (k - 1) div k + (q - 1)"
      by (metis div_mult_self1 assms less_irrefl add.commute mult.commute div_mult_self2)
    then show ?thesis
      using assms by simp
  qed
  with True q assms show ?thesis
    by simp
next
  case False
  have "0 \<le> y mod k" "y mod k < k"
    using assms by simp_all
  with False have r: "1 \<le> y mod k"
    by simp
  have "y - 1 = (y mod k - 1) + (y div k) * k"
    by (simp add: algebra_simps)
  then have "(y - 1) div k = (y mod k - 1) div k + y div k"
    by (metis div_mult_self1 assms less_irrefl add.commute mult.commute div_mult_self2)
  moreover have "(y mod k - 1) div k = 0"
    using r \<open>y mod k < k\<close> by simp
  ultimately show ?thesis
    using False by simp
qed

lemma leap_step:
  fixes y :: int
  shows "y div 4 - y div 100 + y div 400 =
         (y - 1) div 4 - (y - 1) div 100 + (y - 1) div 400 + (if is_leap y then 1 else 0)"
proof -
  define p4 p100 p400 where "p4 \<longleftrightarrow> y mod 4 = 0"
    and "p100 \<longleftrightarrow> y mod 100 = 0"
    and "p400 \<longleftrightarrow> y mod 400 = 0"
  have "y mod 4 = y mod 100 mod 4"
    by (simp add: mod_mod_cancel)
  then have a: "p100 \<Longrightarrow> p4"
    by (simp add: p4_def p100_def)
  have "y mod 100 = y mod 400 mod 100"
    by (simp add: mod_mod_cancel)
  then have b: "p400 \<Longrightarrow> p100"
    by (simp add: p100_def p400_def)
  have l: "is_leap y \<longleftrightarrow> p4 \<and> (\<not> p100 \<or> p400)"
    by (simp add: is_leap_def p4_def p100_def p400_def)
  have d: "y div 4 = (y - 1) div 4 + (if p4 then 1 else 0)"
    "y div 100 = (y - 1) div 100 + (if p100 then 1 else 0)"
    "y div 400 = (y - 1) div 400 + (if p400 then 1 else 0)"
    unfolding p4_def p100_def p400_def by (rule div_step, simp)+
  show ?thesis
    unfolding d l using a b by (cases p4; cases p100; cases p400) simp_all
qed

lemma days_before_year_closed:
  "1 \<le> y \<Longrightarrow>
   days_before_year y = 365 * (y - 1) + (y - 1) div 4 - (y - 1) div 100 + (y - 1) div 400"
proof (induction y rule: int_ge_induct)
  case base
  show ?case
    by (simp add: days_before_year_def)
next
  case (step y)
  have "days_before_year (y + 1) = days_before_year y + days_in_year y"
    using step.hyps by (rule days_before_year_Suc)
  also have "\<dots> = 365 * (y - 1) + ((y - 1) div 4 - (y - 1) div 100 + (y - 1) div 400) +
                   (365 + (if is_leap y then 1 else 0))"
    using step.IH by (simp add: days_in_year_def)
  also have "\<dots> = 365 * y + (y div 4 - y div 100 + y div 400)"
    unfolding leap_step [of y] by simp
  finally show ?case
    by simp
qed

lemma toordinal_example: "toordinal \<lparr>year = 2020, month = 1, day = 15\<rparr> = 737439"
  by (simp add: toordinal_def days_before_year_closed days_before_month_def)

text \<open>A valid date lies within its month and within its year.\<close>

lemma toordinal_lower:
  "valid_date dt \<Longrightarrow>
   days_before_year (year dt) + days_before_month (year dt) (month dt) + 1 \<le> toordinal dt"
  by (simp add: toordinal_def valid_date_def)

lemma toordinal_upper_month:
  assumes "valid_date dt"
  shows "toordinal dt \<le>
         days_before_year (year dt) + days_before_month (year dt) (month dt + 1)"
  using assms by (simp add: toordinal_def valid_date_def days_before_month_Suc)

lemma toordinal_upper_year:
  assumes "valid_date dt"
  shows "toordinal dt \<le> days_before_year (year dt + 1)"
proof -
  have "month dt + 1 \<le> 13"
    using assms by (simp add: valid_date_def)
  then have "days_before_month (year dt) (month dt + 1) \<le> days_in_year (year dt)"
    using days_before_month_mono [of "month dt + 1" 13 "year dt"]
    by (simp add: days_before_month_13)
  moreover have "1 \<le> year dt"
    using assms by (simp add: valid_date_def)
  ultimately show ?thesis
    using toordinal_upper_month [OF assms] by (simp add: days_before_year_Suc)
qed

text \<open>
  The comparison of datetimes, which is the comparison of (year, month, day), agrees
  with the order of the day numbers.
\<close>

lemma datetime_gt_toordinal:
  assumes "valid_date a" "valid_date b" "datetime_gt a b"
  shows "toordinal b < toordinal a"
proof -
  consider (y) "year b < year a"
    | (m) "year a = year b" "month b < month a"
    | (d) "year a = year b" "month a = month b" "day b < day a"
    using assms(3) by (auto simp: datetime_gt_def)
  then show ?thesis
  proof cases
    case y
    have "toordinal b \<le> days_before_year (year b + 1)"
      by (rule toordinal_upper_year [OF assms(2)])
    also have "\<dots> \<le> days_before_year (year a)"
      using y by (intro days_before_year_mono) simp
    also have "\<dots> < toordinal a"
      using toordinal_lower [OF assms(1)] days_before_month_mono [of 1 "month a" "year a"]
        assms(1)
      by (simp add: valid_date_def days_before_month_def)
    finally show ?thesis .
  next
    case m
    have "toordinal b \<le>
          days_before_year (year b) + days_before_month (year b) (month b + 1)"
      by (rule toordinal_upper_month [OF assms(2)])
    also have "\<dots> \<le> days_before_year (year a) + days_before_month (year a) (month a)"
      using m days_before_month_mono [of "month b + 1" "month a" "year a"] by simp
    also have "\<dots> < toordinal a"
      using toordinal_lower [OF assms(1)] by simp
    finally show ?thesis .
  next
    case d
    then show ?thesis
      by (simp add: toordinal_def)
  qed
qed

lemma datetime_gt_iff_toordinal:
  assumes "valid_date a" "valid_date b"
  shows "datetime_gt a b \<longleftrightarrow> toordinal b < toordinal a"
proof
  assume "datetime_gt a b"
  then show "toordinal b < toordinal a"
    by (rule datetime_gt_toordinal [OF assms])
next
  assume lt: "toordinal b < toordinal a"
  show "datetime_gt a b"
  proof (rule ccontr)
    assume n: "\<not> datetime_gt a b"
    then consider "datetime_gt b a"
      | "year a = year b \<and> month a = month b \<and> day a = day b"
      unfolding datetime_gt_def by atomize_elim linarith
    then show False
    proof cases
      case 1
      from datetime_gt_toordinal [OF assms(2) assms(1) 1] lt show False
        by simp
    next
      case 2
      then have "toordinal a = toordinal b"
        by (simp add: toordinal_def)
      with lt show False
        by simp
    qed
  qed
qed

section \<open>The loop of filter\_by\_date\<close>

lemma filter_loop_valid:
  assumes "valid_date D"
    and "\<forall>r\<in>set data. valid_date (date_of r) \<and> key r = Some (mdy_format (date_of r))"
  shows "filter_loop D key data acc =
           Inr (acc @ filter (\<lambda>r. toordinal D < toordinal (date_of r)) data)"
  using assms(2)
proof (induction data arbitrary: acc)
  case Nil
  show ?case
    by simp
next
  case (Cons r rs)
  then have r: "valid_date (date_of r)" "key r = Some (mdy_format (date_of r))"
    by simp_all
  from Cons show ?case
    by (simp add: r parse_mdy_format datetime_gt_iff_toordinal [OF r(1) assms(1)])
qed

section \<open>The two fetchers\<close>

text \<open>The loops read the client only through \<open>get_custom_endpoint\<close>.\<close>

lemma dividend_loop_api:
  "dividend_loop (api\<lparr>dividends := x\<rparr>) ds evs acc = dividend_loop api ds evs acc"
  by (induction ds arbitrary: evs acc) (simp_all split: sum.splits)

lemma trade_loop_api:
  "trade_loop F (api\<lparr>dividends := x\<rparr>) os evs acc = trade_loop F api os evs acc"
  by (induction os arbitrary: evs acc) (simp_all add: Let_def split: sum.splits)

lemma get_trade_api:
  "get_robinhood_trade_data F (api\<lparr>dividends := x\<rparr>) = get_robinhood_trade_data F api"
  by (simp add: get_robinhood_trade_data_def trade_loop_api split: sum.splits)

text \<open>Records whose \<open>paid_at\<close> is false can be removed from the list beforehand.\<close>

lemma dividend_loop_filter:
  assumes "\<And>d. d \<in> set ds \<Longrightarrow> \<not> P d \<Longrightarrow> \<not> truthy (dividend_paid_at d)"
  shows "dividend_loop api (filter P ds) evs acc = dividend_loop api ds evs acc"
  using assms by (induction ds arbitrary: evs acc) (simp_all split: sum.splits)

lemma get_dividend_filter:
  assumes "\<And>d. d \<in> set ds \<Longrightarrow> \<not> P d \<Longrightarrow> \<not> truthy (dividend_paid_at d)"
  shows "get_robinhood_dividend_data (api\<lparr>dividends := Inr (filter P ds)\<rparr>) =
         get_robinhood_dividend_data (api\<lparr>dividends := Inr ds\<rparr>)"
  using dividend_loop_filter [OF assms]
  by (simp add: get_robinhood_dividend_data_def dividend_loop_api)

text \<open>\<open>main\<close> reads the client through \<open>login\<close> and the two fetchers only.\<close>

lemma main_cong:
  assumes "login a = login b"
    and "get_robinhood_dividend_data a = get_robinhood_dividend_data b"
    and "get_robinhood_trade_data F a = get_robinhood_trade_data F b"
  shows "main F command_line a fs = main F command_line b fs"
  unfolding main_def assms ..

text \<open>Every trade that the trade fetcher returns has the cost it computed.\<close>

lemma trade_loop_cost:
  assumes "trade_loop F api os evs acc = (evs', Inr ts)"
    and "\<forall>t\<in>set acc. cost_ok F t"
  shows "\<forall>t\<in>set ts. cost_ok F t"
  using assms
proof (induction os arbitrary: evs acc)
  case Nil
  then show ?case
    by simp
next
  case (Cons order orders)
  note run = Cons.prems(1) and acc = Cons.prems(2) and IH = Cons.IH
  show ?case
  proof (cases "get_custom_endpoint api (order_instrument order)")
    case (Inl e)
    with run show ?thesis
      by simp
  next
    case (Inr ticker)
    define evs1 where
      "evs1 = evs @ [Call_get_custom_endpoint (order_instrument order), Print_stdout ticker]"
    show ?thesis
    proof (cases "order_executions order = []")
      case True
      with Inr run have "trade_loop F api orders evs1 acc = (evs', Inr ts)"
        by (simp add: evs1_def)
      from IH [OF this acc] show ?thesis .
    next
      case False
      define ex where "ex = hd (order_executions order)"
      define t where
        "t = \<lparr>trade_ticker = ticker, trade_side = order_side order,
               trade_quantity = exec_quantity ex, trade_price = exec_price ex,
               trade_Date = hd (str_split CHR ''T'' (exec_timestamp ex)),
               trade_cost = float_mul F (float_val F (exec_price ex))
                                        (float_val F (exec_quantity ex))\<rparr>"
      have step: "trade_loop F api (order # orders) evs acc =
         (if float_ok F (exec_price ex) \<and> float_ok F (exec_quantity ex)
          then trade_loop F api orders evs1 (acc @ [t]) else (evs1, Inl ValueError))"
        using Inr False by (simp add: Let_def py_float_def evs1_def ex_def t_def)
      show ?thesis
      proof (cases "float_ok F (exec_price ex) \<and> float_ok F (exec_quantity ex)")
        case True
        with step run have r: "trade_loop F api orders evs1 (acc @ [t]) = (evs', Inr ts)"
          by simp
        have "cost_ok F t"
          by (simp add: cost_ok_def t_def)
        with acc have "\<forall>x\<in>set (acc @ [t]). cost_ok F x"
          by simp
        from IH [OF r this] show ?thesis .
      next
        case False
        with step run show ?thesis
          by simp
      qed
    qed
  qed
qed

lemma get_robinhood_trade_data_cost:
  assumes "snd (get_robinhood_trade_data F api) = Inr ts"
  shows "\<forall>t\<in>set ts. cost_ok F t"
proof (cases "order_history api")
  case (Inl e)
  with assms show ?thesis
    by (simp add: get_robinhood_trade_data_def)
next
  case (Inr os)
  with assms obtain evs' where "trade_loop F api os [Call_order_history] [] = (evs', Inr ts)"
    by (cases "trade_loop F api os [Call_order_history] []")
      (simp add: get_robinhood_trade_data_def)
  from trade_loop_cost [OF this] show ?thesis
    by simp
qed

section \<open>The row mapping\<close>

text \<open>\<open>None\<close> and the empty list are the same to \<open>parse_robinhood_data_to_mint\<close>.\<close>

lemma parse_unfold:
  "parse_robinhood_data_to_mint F td dd =
     (case trade_rows F (case td of None \<Rightarrow> [] | Some ts \<Rightarrow> ts) [] of
        Inl e \<Rightarrow> Inl e
      | Inr m \<Rightarrow> dividend_rows F (case dd of None \<Rightarrow> [] | Some ds \<Rightarrow> ds) m)"
proof -
  have d: "(case dd of Some (line # rest) \<Rightarrow> dividend_rows F (line # rest) m | _ \<Rightarrow> Inr m) =
           dividend_rows F (case dd of None \<Rightarrow> [] | Some ds \<Rightarrow> ds) m" for m
    by (simp del: dividend_rows.simps(2) split: option.splits list.splits)
  have t: "(case td of Some (line # rest) \<Rightarrow> trade_rows F (line # rest) [] | _ \<Rightarrow> Inr []) =
           trade_rows F (case td of None \<Rightarrow> [] | Some ts \<Rightarrow> ts) []"
    by (simp del: trade_rows.simps(2) split: option.splits list.splits)
  show ?thesis
    unfolding parse_robinhood_data_to_mint_def d t ..
qed

lemma trade_rows_iso:
  assumes "\<forall>t\<in>set ts. trade_Date t = iso_format (tdate t)"
  shows "trade_rows F ts acc =
     Inr (acc @ map (\<lambda>t. \<lparr>Date = mdy_format (tdate t),
               Description_Original = trade_ticker t,
               Description = ''Investments:'' @ trade_side t,
               Amount = np_round2 F (trade_cost t),
               Transaction_Type = ''credit'',
               Category = Some (trade_side t),
               Account_Name = None,
               Labels = Some (trade_quantity t),
               Notes = Some (trade_price t)\<rparr>) ts)"
  using assms by (induction ts arbitrary: acc) (simp_all add: convert_iso_format)

lemma dividend_rows_iso:
  assumes "\<forall>d\<in>set ds. payment_Date d = iso_format (ddate d) \<and> float_ok F (payment_amount d)"
  shows "dividend_rows F ds acc =
     Inr (acc @ map (\<lambda>d. \<lparr>Date = mdy_format (ddate d),
               Description_Original = payment_ticker d,
               Description = ''Investments:Dividend Income'',
               Amount = np_round2 F (float_val F (payment_amount d)),
               Transaction_Type = ''credit'',
               Category = None,
               Account_Name = None,
               Labels = None,
               Notes = None\<rparr>) ds)"
  using assms
  by (induction ds arbitrary: acc) (simp_all add: convert_iso_format py_float_def)

section \<open>The concrete account, evaluated\<close>

lemma splitext_examples:
  "splitext ''out.txt'' = (''out'', ''.txt'')"
  "splitext ''robinhood_output.csv'' = (''robinhood_output'', ''.csv'')"
  "splitext ''dir.d/out'' = (''dir.d/out'', [])"
  "splitext ''.csv'' = (''.csv'', [])"
  by code_simp+

lemma float_parse_examples:
  "float_parse ''150.005'' = Some (Finite 5277831735185244 (- 45))"
  "float_parse ''10'' = Some (Finite 5629499534213120 (- 49))"
  "float_parse ''5.04'' = Some (Finite 5674535530486825 (- 50))"
  "float_parse ''12.345'' = Some (Finite 6949617174986097 (- 49))"
  "float_parse ''2'' = Some (Finite 4503599627370496 (- 51))"
  "float_parse ''24.69'' = Some (Finite 6949617174986097 (- 48))"
  "float_parse ''24.6899999'' = Some (Finite 6949617146838599 (- 48))"
  by code_simp+


lemma example_floats_ok:
  "float_ok symbolic_floats ''150.005''"
  "float_ok symbolic_floats ''10''"
  "float_ok symbolic_floats ''5.04''"
  by (simp_all add: symbolic_floats_def float_parse_examples)

lemma symbolic_floats_simps:
  "float_val symbolic_floats = Float_of"
  "float_mul symbolic_floats = Times"
  "np_round2 symbolic_floats = Round2"
  "float_str symbolic_floats = fexpr_str"
  by (simp_all add: symbolic_floats_def)

lemma example_client_dividends:
  "(example_client ok ds)\<lparr>dividends := Inr ds'\<rparr> = example_client ok ds'"
  by (simp add: example_client_def)

lemma example_dividend_data:
  "get_robinhood_dividend_data
     (example_client ok [example_dividend (Some ''2017-05-18T00:00:00'')]) =
   ([Call_dividends, Call_get_custom_endpoint ''instruments/msft/''], Inr [example_payment])"
  by (simp add: get_robinhood_dividend_data_def example_client_def example_dividend_def
      example_payment_def truthy_def)

lemma example_trade_data:
  "get_robinhood_trade_data symbolic_floats (example_client ok ds) =
   ([Call_order_history, Call_get_custom_endpoint ''instruments/aapl/'', Print_stdout ''AAPL''],
    Inr [example_trade])"
  by (simp add: get_robinhood_trade_data_def example_client_def example_order_def
      example_trade_def py_float_def example_floats_ok symbolic_floats_simps Let_def)

lemma example_parse:
  "parse_robinhood_data_to_mint symbolic_floats (Some [example_trade]) (Some [example_payment]) =
   Inr example_rows"
  by (simp add: parse_unfold convert_robinhood_date_def list_index_def py_float_def
      example_trade_def example_payment_def example_rows_def example_floats_ok
      symbolic_floats_simps)

lemma example_write:
  "write_csv symbolic_floats MINT_HEADERS example_rows ''robinhood_output.csv'' Map.empty =
   (Inr ''robinhood_output.csv'', [''robinhood_output.csv'' \<mapsto> example_file])"
  by (simp add: write_csv_def splitext_examples)
    (simp add: MINT_HEADERS_def row_get_def cell_of_def example_rows_def example_file_def
      symbolic_floats_simps)

section \<open>Binary64 arithmetic\<close>














section \<open>Claims about convert\_robinhood\_date\<close>

text \<open>
  C2 (as stated, refuted): the claim says that every input that does not split into
  exactly three segments on \<open>-\<close> is rejected. The input \<open>2020-01-15-99\<close> splits into four
  segments and is converted, the fourth segment being dropped.
\<close>

theorem convert_robinhood_date_extra_segment_accepted:
  "length (str_split CHR ''-'' ''2020-01-15-99'') = 4 \<and>
   convert_robinhood_date ''2020-01-15-99'' = Inr ''01/15/2020''"
  by (simp add: convert_robinhood_date_def list_index_def Let_def)

text \<open>
  C2 (amended): an input with fewer than three segments raises IndexError and yields no
  string; an input with three or more segments yields the second, third and first
  segment joined by \<open>/\<close>, whatever follows the third segment.
\<close>

theorem convert_robinhood_date_segments:
  "(length (str_split CHR ''-'' s) < 3 \<longrightarrow> convert_robinhood_date s = Inl IndexError) \<and>
   (3 \<le> length (str_split CHR ''-'' s) \<longrightarrow>
      convert_robinhood_date s =
        Inr (str_split CHR ''-'' s ! 1 @ ''/'' @ str_split CHR ''-'' s ! 2 @ ''/'' @
             str_split CHR ''-'' s ! 0))"
  using str_split_nonempty [of "CHR ''-''" s]
  by (auto simp: convert_robinhood_date_def list_index_def Let_def)

theorem convert_robinhood_date_segments_witness:
  "length (str_split CHR ''-'' ''2020-01'') < 3 \<and>
   convert_robinhood_date ''2020-01'' = Inl IndexError \<and>
   3 \<le> length (str_split CHR ''-'' ''2020-01-15'') \<and>
   convert_robinhood_date ''2020-01-15'' = Inr ''01/15/2020''"
  using convert_robinhood_date_segments [of "''2020-01''"]
        convert_robinhood_date_segments [of "''2020-01-15''"]
  by (simp add: Let_def)

text \<open>
  C7: for every valid date, the ISO string YYYY-MM-DD of the date is converted to the
  MM/DD/YYYY string of the same date. The round trip is the identity on the date: the
  program's own reading of MM/DD/YYYY dates (\<open>parse_mdy\<close>, the two lines of
  \<open>filter_by_date\<close>) gives the date value again, and the inverse exchange of segments
  gives the ISO string again.
\<close>

theorem convert_robinhood_date_roundtrip:
  assumes "valid_date dt"
  shows "convert_robinhood_date (iso_format dt) = Inr (mdy_format dt) \<and>
         parse_mdy (mdy_format dt) = Inr dt \<and>
         mint_date_to_robinhood (mdy_format dt) = Inr (iso_format dt)"
  using assms
  by (simp add: convert_iso_format parse_mdy_format mint_date_to_robinhood_format)

theorem convert_robinhood_date_roundtrip_witness:
  "valid_date \<lparr>year = 2020, month = 1, day = 15\<rparr> \<and>
   convert_robinhood_date ''2020-01-15'' = Inr ''01/15/2020'' \<and>
   parse_mdy ''01/15/2020'' = Inr \<lparr>year = 2020, month = 1, day = 15\<rparr> \<and>
   mint_date_to_robinhood ''01/15/2020'' = Inr ''2020-01-15''"
proof -
  have v: "valid_date \<lparr>year = 2020, month = 1, day = 15\<rparr>"
    by (simp add: valid_date_def days_in_month_def)
  have i: "iso_format \<lparr>year = 2020, month = 1, day = 15\<rparr> = ''2020-01-15''"
    by (simp add: iso_format_def pad2_def pad4_def digit_char_def)
  have m: "mdy_format \<lparr>year = 2020, month = 1, day = 15\<rparr> = ''01/15/2020''"
    by (simp add: mdy_format_def pad2_def pad4_def digit_char_def)
  show ?thesis
    using convert_robinhood_date_roundtrip [OF v] v unfolding i m by simp
qed

section \<open>Claims about filter\_by\_date\<close>

text \<open>
  C3: for a cutoff that is the MM/DD/YYYY text of a valid date \<open>D\<close> and rows whose
  dates are the MM/DD/YYYY texts of valid dates, \<open>filter_by_date\<close> returns, in their
  order, exactly the rows whose date comes after \<open>D\<close> in the calendar: a row dated on
  the cutoff day is dropped. The calendar position is \<open>toordinal\<close>, not the order of
  the strings.
\<close>

theorem filter_by_date_strictly_later:
  assumes "valid_date D"
    and "\<forall>r\<in>set data. valid_date (date_of r) \<and> key r = Some (mdy_format (date_of r))"
  shows "filter_by_date (mdy_format D) data key =
           Inr (filter (\<lambda>r. toordinal D < toordinal (date_of r)) data)"
  using filter_loop_valid [OF assms, of "[]"]
  by (simp add: filter_by_date_def parse_mdy_format [OF assms(1)])

text \<open>
  The cutoff 05/18/2017 drops the row of the same day and the row of 12/31/2016 and
  keeps the rows of 01/01/2018 and 05/19/2017; as strings, \<open>01/01/2018\<close> comes before
  the cutoff and \<open>12/31/2016\<close> after it.
\<close>

theorem filter_by_date_strictly_later_witness:
  "valid_date \<lparr>year = 2017, month = 5, day = 18\<rparr> \<and>
   filter_by_date ''05/18/2017''
     [(''a'', \<lparr>year = 2017, month = 5, day = 18\<rparr>),
      (''b'', \<lparr>year = 2018, month = 1, day = 1\<rparr>),
      (''c'', \<lparr>year = 2016, month = 12, day = 31\<rparr>),
      (''d'', \<lparr>year = 2017, month = 5, day = 19\<rparr>)]
     (\<lambda>r. Some (mdy_format (snd r))) =
   Inr [(''b'', \<lparr>year = 2018, month = 1, day = 1\<rparr>),
        (''d'', \<lparr>year = 2017, month = 5, day = 19\<rparr>)]"
proof -
  have v: "valid_date \<lparr>year = 2017, month = 5, day = 18\<rparr>"
    "valid_date \<lparr>year = 2018, month = 1, day = 1\<rparr>"
    "valid_date \<lparr>year = 2016, month = 12, day = 31\<rparr>"
    "valid_date \<lparr>year = 2017, month = 5, day = 19\<rparr>"
    by (simp_all add: valid_date_def days_in_month_def)
  have m: "mdy_format \<lparr>year = 2017, month = 5, day = 18\<rparr> = ''05/18/2017''"
    by (simp add: mdy_format_def pad2_def pad4_def digit_char_def)
  have o:
    "toordinal \<lparr>year = 2017, month = 5, day = 18\<rparr> <
       toordinal \<lparr>year = 2018, month = 1, day = 1\<rparr>"
    "toordinal \<lparr>year = 2017, month = 5, day = 18\<rparr> <
       toordinal \<lparr>year = 2017, month = 5, day = 19\<rparr>"
    "\<not> toordinal \<lparr>year = 2017, month = 5, day = 18\<rparr> <
       toordinal \<lparr>year = 2016, month = 12, day = 31\<rparr>"
    by (simp_all add: datetime_gt_iff_toordinal [symmetric] v datetime_gt_def)
  show ?thesis
    using filter_by_date_strictly_later [of "\<lparr>year = 2017, month = 5, day = 18\<rparr>"
        "[(''a'', \<lparr>year = 2017, month = 5, day = 18\<rparr>),
          (''b'', \<lparr>year = 2018, month = 1, day = 1\<rparr>),
          (''c'', \<lparr>year = 2016, month = 12, day = 31\<rparr>),
          (''d'', \<lparr>year = 2017, month = 5, day = 19\<rparr>)]"
        snd "\<lambda>r. Some (mdy_format (snd r))"]
    unfolding m by (simp add: v o)
qed

section \<open>Claims about write\_csv\<close>

text \<open>
  C4: when the extension that \<open>os.path.splitext\<close> gives for the output path is not
  \<open>.csv\<close>, \<open>write_csv\<close> raises AssertionError and the files are what they were:
  nothing is opened, nothing is created at the destination.
\<close>

theorem write_csv_wrong_extension:
  assumes "snd (splitext output_path) \<noteq> ''.csv''"
  shows "write_csv F header data output_path fs = (Inl AssertionError, fs)"
  using assms by (simp add: write_csv_def)

theorem write_csv_wrong_extension_witness:
  "snd (splitext ''out.txt'') \<noteq> ''.csv'' \<and>
   write_csv symbolic_floats MINT_HEADERS example_rows ''out.txt'' Map.empty =
     (Inl AssertionError, Map.empty)"
  using write_csv_wrong_extension
    [of "''out.txt''" symbolic_floats MINT_HEADERS example_rows Map.empty]
  by (simp add: splitext_examples)

section \<open>Claims about get\_robinhood\_dividend\_data\<close>

text \<open>
  C5: dividend records whose \<open>paid_at\<close> is null leave no trace in the export. The
  fetcher returns the same payments, after the same calls, as on the list from which
  these records have been removed, and so does the whole run: its trace, its files and
  its exit status are the same.
\<close>

theorem null_paid_at_never_exported:
  "get_robinhood_dividend_data (api\<lparr>dividends := Inr ds\<rparr>) =
     get_robinhood_dividend_data
       (api\<lparr>dividends := Inr (filter (\<lambda>d. dividend_paid_at d \<noteq> None) ds)\<rparr>) \<and>
   main F command_line (api\<lparr>dividends := Inr ds\<rparr>) fs =
     main F command_line
       (api\<lparr>dividends := Inr (filter (\<lambda>d. dividend_paid_at d \<noteq> None) ds)\<rparr>) fs"
proof -
  have g: "get_robinhood_dividend_data (api\<lparr>dividends := Inr ds\<rparr>) =
     get_robinhood_dividend_data
       (api\<lparr>dividends := Inr (filter (\<lambda>d. dividend_paid_at d \<noteq> None) ds)\<rparr>)"
    by (rule get_dividend_filter [symmetric]) (simp add: truthy_def)
  show ?thesis
    by (rule conjI [OF g main_cong]) (simp_all add: g get_trade_api)
qed

text \<open>Of a null and a paid dividend, only the paid one is fetched and returned.\<close>

theorem null_paid_at_never_exported_witness:
  "get_robinhood_dividend_data
     (example_client True
        [example_dividend None, example_dividend (Some ''2017-05-18T00:00:00'')]) =
   ([Call_dividends, Call_get_custom_endpoint ''instruments/msft/''], Inr [example_payment])"
proof -
  have f: "filter (\<lambda>d. dividend_paid_at d \<noteq> None)
             [example_dividend None, example_dividend (Some ''2017-05-18T00:00:00'')] =
           [example_dividend (Some ''2017-05-18T00:00:00'')]"
    by (simp add: example_dividend_def)
  show ?thesis
    using null_paid_at_never_exported
      [where api = "example_client True []" and
          ds = "[example_dividend None, example_dividend (Some ''2017-05-18T00:00:00'')]" and
          F = symbolic_floats and command_line = example_args and fs = Map.empty]
    unfolding example_client_dividends f by (simp add: example_dividend_data)
qed

text \<open>
  C9: a dividend record whose \<open>paid_at\<close> is the empty string is excluded like one
  whose \<open>paid_at\<close> is null. The fetcher returns the same as on the list without
  these records, and the same as on the list in which their \<open>paid_at\<close> is null.
\<close>

theorem empty_paid_at_never_exported:
  "get_robinhood_dividend_data (api\<lparr>dividends := Inr ds\<rparr>) =
     get_robinhood_dividend_data
       (api\<lparr>dividends := Inr (filter (\<lambda>d. dividend_paid_at d \<noteq> Some []) ds)\<rparr>) \<and>
   get_robinhood_dividend_data (api\<lparr>dividends := Inr ds\<rparr>) =
     get_robinhood_dividend_data
       (api\<lparr>dividends :=
          Inr (map (\<lambda>d. if dividend_paid_at d = Some []
                         then d\<lparr>dividend_paid_at := None\<rparr> else d) ds)\<rparr>)"
proof -
  have a: "get_robinhood_dividend_data (api\<lparr>dividends := Inr ds\<rparr>) =
     get_robinhood_dividend_data
       (api\<lparr>dividends := Inr (filter (\<lambda>d. dividend_paid_at d \<noteq> Some []) ds)\<rparr>)"
    by (rule get_dividend_filter [symmetric]) (simp add: truthy_def)
  have "dividend_loop api
          (map (\<lambda>d. if dividend_paid_at d = Some []
                     then d\<lparr>dividend_paid_at := None\<rparr> else d) ds) evs acc =
        dividend_loop api ds evs acc" for evs acc
    by (induction ds arbitrary: evs acc) (simp_all add: truthy_def split: sum.splits)
  then have b: "get_robinhood_dividend_data (api\<lparr>dividends := Inr ds\<rparr>) =
     get_robinhood_dividend_data
       (api\<lparr>dividends :=
          Inr (map (\<lambda>d. if dividend_paid_at d = Some []
                         then d\<lparr>dividend_paid_at := None\<rparr> else d) ds)\<rparr>)"
    by (simp add: get_robinhood_dividend_data_def dividend_loop_api)
  from a b show ?thesis ..
qed

text \<open>Of a dividend paid at \<open>""\<close> and a paid one, only the paid one is returned.\<close>

theorem empty_paid_at_never_exported_witness:
  "get_robinhood_dividend_data
     (example_client True
        [example_dividend (Some []), example_dividend (Some ''2017-05-18T00:00:00'')]) =
   ([Call_dividends, Call_get_custom_endpoint ''instruments/msft/''], Inr [example_payment])"
proof -
  have f: "filter (\<lambda>d. dividend_paid_at d \<noteq> Some [])
             [example_dividend (Some []), example_dividend (Some ''2017-05-18T00:00:00'')] =
           [example_dividend (Some ''2017-05-18T00:00:00'')]"
    by (simp add: example_dividend_def)
  show ?thesis
    using empty_paid_at_never_exported
      [where api = "example_client True []" and
          ds = "[example_dividend (Some []),
                 example_dividend (Some ''2017-05-18T00:00:00'')]"]
    unfolding example_client_dividends f by (simp add: example_dividend_data)
qed

section \<open>Claims about parse\_robinhood\_data\_to\_mint\<close>

text \<open>
  C10: \<open>None\<close> is accepted for either argument and counts as the empty list. With
  both arguments \<open>None\<close> or empty the result is the empty list; with the trades
  \<open>None\<close> or empty the result is the conversion of the dividends alone, and with the
  dividends \<open>None\<close> or empty it is the conversion of the trades alone.
\<close>

theorem parse_robinhood_data_to_mint_None:
  "parse_robinhood_data_to_mint F None None = Inr [] \<and>
   parse_robinhood_data_to_mint F None (Some []) = Inr [] \<and>
   parse_robinhood_data_to_mint F (Some []) None = Inr [] \<and>
   parse_robinhood_data_to_mint F (Some []) (Some []) = Inr [] \<and>
   parse_robinhood_data_to_mint F None (Some ds) = dividend_rows F ds [] \<and>
   parse_robinhood_data_to_mint F (Some []) (Some ds) = dividend_rows F ds [] \<and>
   parse_robinhood_data_to_mint F (Some ts) None = trade_rows F ts [] \<and>
   parse_robinhood_data_to_mint F (Some ts) (Some []) = trade_rows F ts []"
  unfolding parse_unfold by (simp split: sum.splits)

text \<open>With one group absent, the row of the other group is produced as before.\<close>

theorem parse_robinhood_data_to_mint_None_witness:
  "parse_robinhood_data_to_mint symbolic_floats None (Some [example_payment]) =
     Inr (tl example_rows) \<and>
   parse_robinhood_data_to_mint symbolic_floats (Some [example_trade]) None =
     Inr [hd example_rows]"
  using parse_robinhood_data_to_mint_None
    [of symbolic_floats "[example_payment]" "[example_trade]"]
  by (simp add: convert_robinhood_date_def list_index_def py_float_def example_floats_ok
      symbolic_floats_simps example_trade_def example_payment_def example_rows_def)

text \<open>
  C6: for the trades that \<open>get_robinhood_trade_data\<close> returns and for dividend
  payments, all dated by ISO strings of valid dates and with dividend amounts that
  \<open>float\<close> accepts, the result is the list of the trade rows, in the order of the
  trades, followed by the dividend rows, in the order of the dividends. A trade row has
  the date as MM/DD/YYYY, the ticker, \<open>Investments:\<close> followed by the side, the amount
  \<open>round(float(price) * float(quantity), 2)\<close>, the side as category, the quantity as
  label and the price as note. The result depends on the two arguments only.
\<close>

theorem parse_robinhood_data_to_mint_rows:
  assumes "snd (get_robinhood_trade_data F api) = Inr ts"
    and "\<forall>t\<in>set ts. valid_date (tdate t) \<and> trade_Date t = iso_format (tdate t)"
    and "\<forall>d\<in>set ds. valid_date (ddate d) \<and> payment_Date d = iso_format (ddate d) \<and>
                     float_ok F (payment_amount d)"
  shows "parse_robinhood_data_to_mint F (Some ts) (Some ds) =
     Inr (map (\<lambda>t. \<lparr>Date = mdy_format (tdate t),
               Description_Original = trade_ticker t,
               Description = ''Investments:'' @ trade_side t,
               Amount = np_round2 F (float_mul F (float_val F (trade_price t))
                                                 (float_val F (trade_quantity t))),
               Transaction_Type = ''credit'',
               Category = Some (trade_side t),
               Account_Name = None,
               Labels = Some (trade_quantity t),
               Notes = Some (trade_price t)\<rparr>) ts @
          map (\<lambda>d. \<lparr>Date = mdy_format (ddate d),
               Description_Original = payment_ticker d,
               Description = ''Investments:Dividend Income'',
               Amount = np_round2 F (float_val F (payment_amount d)),
               Transaction_Type = ''credit'',
               Category = None,
               Account_Name = None,
               Labels = None,
               Notes = None\<rparr>) ds)"
proof -
  have t: "\<forall>t\<in>set ts. trade_Date t = iso_format (tdate t)"
    using assms(2) by simp
  have d: "\<forall>d\<in>set ds. payment_Date d = iso_format (ddate d) \<and> float_ok F (payment_amount d)"
    using assms(3) by simp
  have c: "\<forall>t\<in>set ts. trade_cost t =
      float_mul F (float_val F (trade_price t)) (float_val F (trade_quantity t))"
    using get_robinhood_trade_data_cost [OF assms(1)] by (simp add: cost_ok_def)
  show ?thesis
    unfolding parse_unfold using c
    by (simp add: trade_rows_iso [OF t] dividend_rows_iso [OF d])
qed

text \<open>
  The AAPL order of 2020-01-15 (10 at 150.005) and the MSFT dividend of 2017-05-18
  (5.04) give the two rows of \<open>example_rows\<close>.
\<close>

theorem parse_robinhood_data_to_mint_rows_witness:
  "snd (get_robinhood_trade_data symbolic_floats (example_client True [])) =
     Inr [example_trade] \<and>
   valid_date \<lparr>year = 2020, month = 1, day = 15\<rparr> \<and>
   trade_Date example_trade = iso_format \<lparr>year = 2020, month = 1, day = 15\<rparr> \<and>
   valid_date \<lparr>year = 2017, month = 5, day = 18\<rparr> \<and>
   payment_Date example_payment = iso_format \<lparr>year = 2017, month = 5, day = 18\<rparr> \<and>
   float_ok symbolic_floats (payment_amount example_payment) \<and>
   parse_robinhood_data_to_mint symbolic_floats
     (Some [example_trade]) (Some [example_payment]) = Inr example_rows"
proof -
  have v: "valid_date \<lparr>year = 2020, month = 1, day = 15\<rparr>"
    "valid_date \<lparr>year = 2017, month = 5, day = 18\<rparr>"
    by (simp_all add: valid_date_def days_in_month_def)
  have i: "iso_format \<lparr>year = 2020, month = 1, day = 15\<rparr> = ''2020-01-15''"
    "iso_format \<lparr>year = 2017, month = 5, day = 18\<rparr> = ''2017-05-18''"
    by (simp_all add: iso_format_def pad2_def pad4_def digit_char_def)
  have m: "mdy_format \<lparr>year = 2020, month = 1, day = 15\<rparr> = ''01/15/2020''"
    "mdy_format \<lparr>year = 2017, month = 5, day = 18\<rparr> = ''05/18/2017''"
    by (simp_all add: mdy_format_def pad2_def pad4_def digit_char_def)
  show ?thesis
    using parse_robinhood_data_to_mint_rows
      [of symbolic_floats "example_client True []" "[example_trade]"
          "\<lambda>t. \<lparr>year = 2020, month = 1, day = 15\<rparr>" "[example_payment]"
          "\<lambda>d. \<lparr>year = 2017, month = 5, day = 18\<rparr>"]
    by (simp add: example_trade_data v i m example_floats_ok symbolic_floats_simps
        example_trade_def example_payment_def example_rows_def)
qed

section \<open>Claims about the amounts\<close>




section \<open>Claims about main\<close>

text \<open>
  C1 (the code departs from the claim): the claim says that a failed login ends the
  run before anything is fetched, with a non-zero exit status. \<open>do_usage_and_die\<close>
  prints the message and the usage and returns 2 to \<open>main\<close>, which discards the value
  and goes on. With a client whose \<open>login\<close> returns \<open>False\<close> the run fetches the
  dividends and the orders, writes \<open>robinhood_output.csv\<close> and exits with status 0.
\<close>

theorem main_continues_after_failed_login:
  "main symbolic_floats example_args
     (example_client False [example_dividend (Some ''2017-05-18T00:00:00'')]) Map.empty =
   \<lparr>trace =
      [Call_login ''user'' ''wrong'',
       Print_stderr ''Username or Password is incorrect'',
       Print_help_stderr,
       Call_dividends,
       Call_get_custom_endpoint ''instruments/msft/'',
       Call_order_history,
       Call_get_custom_endpoint ''instruments/aapl/'',
       Print_stdout ''AAPL'',
       Print_elapsed_stderr],
    files_after = [''robinhood_output.csv'' \<mapsto> example_file],
    exit_status = 0\<rparr>"
proof -
  have l: "login (example_client False ds) u p = Inr False" for ds u p
    by (simp add: example_client_def)
  show ?thesis
    unfolding main_def l example_dividend_data example_trade_data
    by (simp add: example_args_def default_true_def do_usage_and_die_def example_parse
        example_write)
qed

end
